theory Spec2Isabelle
  imports Complex_Main
begin

section \<open>Python values and exceptions\<close>

text \<open>
  The client builds JSON-serialisable Python values and hands them to a transport.
  A float is modelled by the real number its literal denotes (the client never computes
  with one, it only stores it), with the two infinities and NaN beside the finite ones.
  A dict literal is an association list in the order in which its keys are written.
\<close>

datatype pyfloat = Finite real | Infinity bool | NaN

datatype pyval =
    PNone
  | PBool bool
  | PInt int
  | PFloat pyfloat
  | PStr string
  | PList "pyval list"
  | PDict "(string \<times> pyval) list"

text \<open>
  A raised exception: \<open>is_Exception\<close> says whether its class derives from
  \<^verbatim>\<open>Exception\<close> (which is what \<^verbatim>\<open>except Exception\<close> tests); the exceptions that
  derive from \<^verbatim>\<open>BaseException\<close> only are \<^verbatim>\<open>KeyboardInterrupt\<close>, \<^verbatim>\<open>SystemExit\<close>
  and \<^verbatim>\<open>GeneratorExit\<close>, which Python does not count as errors.
\<close>

datatype pyexc = PyExc (is_Exception: bool) (exc_class: string) (exc_args: "pyval list")

text \<open>The optics id has the annotation \<^verbatim>\<open>Union[str, int]\<close>.\<close>

datatype optics_id = IdInt int | IdStr string

subsection \<open>The builtin \<^verbatim>\<open>str\<close> on an optics id\<close>

fun str_nat :: "nat \<Rightarrow> string" where
  "str_nat n =
     (if n < 10 then [''0123456789'' ! n]
      else str_nat (n div 10) @ [''0123456789'' ! (n mod 10)])"

declare str_nat.simps [simp del]

definition str_int :: "int \<Rightarrow> string" where
  "str_int i = (if i < 0 then CHR ''-'' # str_nat (nat (- i)) else str_nat (nat i))"

fun py_str :: "optics_id \<Rightarrow> string" where
  "py_str (IdInt i) = str_int i"
| "py_str (IdStr s) = s"

subsection \<open>Reading a value: \<^verbatim>\<open>d[k]\<close>, \<^verbatim>\<open>xs[i]\<close>, \<^verbatim>\<open>list(d)\<close>\<close>

text \<open>\<open>None\<close> stands for the \<^verbatim>\<open>KeyError\<close>, \<^verbatim>\<open>IndexError\<close> or \<^verbatim>\<open>TypeError\<close> of Python.\<close>

fun getitem :: "pyval \<Rightarrow> string \<Rightarrow> pyval option" where
  "getitem (PDict kvs) k = map_of kvs k"
| "getitem _ k = None"

fun getindex :: "pyval \<Rightarrow> nat \<Rightarrow> pyval option" where
  "getindex (PList xs) i = (if i < length xs then Some (xs ! i) else None)"
| "getindex _ i = None"

fun keys :: "pyval \<Rightarrow> string list" where
  "keys (PDict kvs) = map fst kvs"
| "keys _ = []"

text \<open>\<^verbatim>\<open>body["params"]["optics"]\<close> and \<^verbatim>\<open>body["params"]["optics"][0]\<close>.\<close>

definition params_optics :: "pyval \<Rightarrow> pyval option" where
  "params_optics body = Option.bind (getitem body ''params'') (\<lambda>p. getitem p ''optics'')"

definition optics0 :: "pyval \<Rightarrow> pyval option" where
  "optics0 body = Option.bind (params_optics body) (\<lambda>l. getindex l 0)"

section \<open>The transport collaborator\<close>

record request =
  path :: string
  http_method :: string
  json_data :: pyval

text \<open>
  The state threaded through a call is the list of the requests sent so far. The
  transport answers a request, possibly depending on that history, with a decoded body
  or with a raised exception.
\<close>

type_synonym transport = "request list \<Rightarrow> request \<Rightarrow> pyexc + pyval"

type_synonym 'a io = "request list \<Rightarrow> (pyexc + 'a) \<times> request list"

text \<open>
  Modelled from the spec: \<^verbatim>\<open>VapixAPI._send_request_vanilla\<close> belongs to the injected
  collaborator, whose class is not part of this module ("send request, unwrap, return
  parsed body, raise on transport or protocol error"). It is the parameter \<open>api\<close>;
  every call is recorded.
\<close>

definition send_request_vanilla :: "transport \<Rightarrow> string \<Rightarrow> string \<Rightarrow> pyval \<Rightarrow> pyval io" where
  "send_request_vanilla api p m body sent =
     (let rq = \<lparr>path = p, http_method = m, json_data = body\<rparr>
      in (api sent rq, sent @ [rq]))"

text \<open>
  A method whose body is the one expression statement \<^verbatim>\<open>self.api._send_request_vanilla(...)\<close>:
  what the call raises is raised, what it returns is dropped and the method returns
  \<^verbatim>\<open>None\<close>.
\<close>

definition returning_None :: "pyval io \<Rightarrow> pyval io" where
  "returning_None m sent =
     (case m sent of
        (Inl e, sent') \<Rightarrow> (Inl e, sent')
      | (Inr r, sent') \<Rightarrow> (Inr PNone, sent'))"

text \<open>A parameter with a default value: \<open>None\<close> is an argument the caller left out.\<close>

definition defaulting :: "pyval \<Rightarrow> pyval option \<Rightarrow> pyval" where
  "defaulting d arg = (case arg of None \<Rightarrow> d | Some v \<Rightarrow> v)"

section \<open>The class \<^verbatim>\<open>OpticsControl\<close>\<close>

definition RELATIVE_STEP :: "(string \<times> string) list" where
  "RELATIVE_STEP =
     [(''BIG_IN'', ''+bigStep''),
      (''SMALL_IN'', ''+smallStep''),
      (''BIG_OUT'', ''-bigStep''),
      (''SMALL_OUT'', ''-smallStep'')]"

definition get_optics :: "transport \<Rightarrow> pyval io" where
  "get_optics api =
     send_request_vanilla api ''opticscontrol.cgi'' ''POST''
       (PDict [(''apiVersion'', PStr ''1.2''),
               (''method'', PStr ''getOptics'')])"

definition is_available :: "transport \<Rightarrow> pyval io" where
  "is_available api sent =
     (case get_optics api sent of
        (Inr r, sent') \<Rightarrow> (Inr (PBool True), sent')
      | (Inl e, sent') \<Rightarrow>
          (if is_Exception e then (Inr (PBool False), sent') else (Inl e, sent')))"

definition get_capabilities :: "transport \<Rightarrow> pyval io" where
  "get_capabilities api =
     send_request_vanilla api ''opticscontrol.cgi'' ''POST''
       (PDict [(''apiVersion'', PStr ''1.2''),
               (''method'', PStr ''getCapabilities'')])"

definition set_focus :: "transport \<Rightarrow> optics_id \<Rightarrow> pyval \<Rightarrow> pyval io" where
  "set_focus api optics_id position =
     returning_None (send_request_vanilla api ''opticscontrol.cgi'' ''POST''
       (PDict [(''apiVersion'', PStr ''1.2''),
               (''method'', PStr ''setFocus''),
               (''params'', PDict [(''optics'', PList [PDict
                  [(''opticsId'', PStr (py_str optics_id)),
                   (''position'', position)]])])]))"

definition set_relative_focus :: "transport \<Rightarrow> optics_id \<Rightarrow> pyval \<Rightarrow> pyval io" where
  "set_relative_focus api optics_id step =
     returning_None (send_request_vanilla api ''opticscontrol.cgi'' ''POST''
       (PDict [(''apiVersion'', PStr ''1.2''),
               (''method'', PStr ''setRelativeFocus''),
               (''params'', PDict [(''optics'', PList [PDict
                  [(''opticsId'', PStr (py_str optics_id)),
                   (''type'', step)]])])]))"

definition set_magnification :: "transport \<Rightarrow> optics_id \<Rightarrow> pyval \<Rightarrow> pyval io" where
  "set_magnification api optics_id magnification =
     returning_None (send_request_vanilla api ''opticscontrol.cgi'' ''POST''
       (PDict [(''apiVersion'', PStr ''1.2''),
               (''method'', PStr ''setMagnification''),
               (''params'', PDict [(''optics'', PList [PDict
                  [(''opticsId'', PStr (py_str optics_id)),
                   (''magnification'', magnification)]])])]))"

definition set_relative_magnification :: "transport \<Rightarrow> optics_id \<Rightarrow> pyval \<Rightarrow> pyval io" where
  "set_relative_magnification api optics_id step =
     returning_None (send_request_vanilla api ''opticscontrol.cgi'' ''POST''
       (PDict [(''apiVersion'', PStr ''1.2''),
               (''method'', PStr ''setRelativeMagnification''),
               (''params'', PDict [(''optics'', PList [PDict
                  [(''opticsId'', PStr (py_str optics_id)),
                   (''type'', step)]])])]))"

definition calibrate :: "transport \<Rightarrow> optics_id \<Rightarrow> pyval option \<Rightarrow> pyval option \<Rightarrow> pyval io" where
  "calibrate api optics_id zoom focus =
     returning_None (send_request_vanilla api ''opticscontrol.cgi'' ''POST''
       (PDict [(''apiVersion'', PStr ''1.2''),
               (''method'', PStr ''calibrate''),
               (''params'', PDict [(''optics'', PList [PDict
                  [(''opticsId'', PStr (py_str optics_id)),
                   (''zoom'', defaulting (PBool True) zoom),
                   (''focus'', defaulting (PBool True) focus)]])])]))"

definition reset :: "transport \<Rightarrow> optics_id \<Rightarrow> pyval option \<Rightarrow> pyval option \<Rightarrow> pyval io" where
  "reset api optics_id zoom focus =
     returning_None (send_request_vanilla api ''opticscontrol.cgi'' ''POST''
       (PDict [(''apiVersion'', PStr ''1.2''),
               (''method'', PStr ''reset''),
               (''params'', PDict [(''optics'', PList [PDict
                  [(''opticsId'', PStr (py_str optics_id)),
                   (''zoom'', defaulting (PBool False) zoom),
                   (''focus'', defaulting (PBool True) focus)]])])]))"

definition set_focus_window ::
  "transport \<Rightarrow> optics_id \<Rightarrow> pyval \<Rightarrow> pyval \<Rightarrow> pyval \<Rightarrow> pyval \<Rightarrow> pyval io" where
  "set_focus_window api optics_id x y width height =
     returning_None (send_request_vanilla api ''opticscontrol.cgi'' ''POST''
       (PDict [(''apiVersion'', PStr ''1.2''),
               (''method'', PStr ''setFocusWindow''),
               (''params'', PDict [(''optics'', PList [PDict
                  [(''opticsId'', PStr (py_str optics_id)),
                   (''focusWindowUpperLeftX'', x),
                   (''focusWindowUpperLeftY'', y),
                   (''focusWindowWidth'', width),
                   (''focusWindowHeight'', height)]])])]))"

definition perform_autofocus :: "transport \<Rightarrow> optics_id \<Rightarrow> pyval io" where
  "perform_autofocus api optics_id =
     returning_None (send_request_vanilla api ''opticscontrol.cgi'' ''POST''
       (PDict [(''apiVersion'', PStr ''1.2''),
               (''method'', PStr ''performAutofocus''),
               (''params'', PDict [(''optics'', PList [PDict
                  [(''opticsId'', PStr (py_str optics_id))]])])]))"

definition set_temperature_compensation :: "transport \<Rightarrow> optics_id \<Rightarrow> pyval \<Rightarrow> pyval io" where
  "set_temperature_compensation api optics_id enabled =
     returning_None (send_request_vanilla api ''opticscontrol.cgi'' ''POST''
       (PDict [(''apiVersion'', PStr ''1.2''),
               (''method'', PStr ''setTemperatureCompensation''),
               (''params'', PDict [(''optics'', PList [PDict
                  [(''opticsId'', PStr (py_str optics_id)),
                   (''enable'', enabled)]])])]))"

definition set_ir_cut_filter_state :: "transport \<Rightarrow> optics_id \<Rightarrow> pyval \<Rightarrow> pyval io" where
  "set_ir_cut_filter_state api optics_id state =
     returning_None (send_request_vanilla api ''opticscontrol.cgi'' ''POST''
       (PDict [(''apiVersion'', PStr ''1.2''),
               (''method'', PStr ''setIrCutFilterState''),
               (''params'', PDict [(''optics'', PList [PDict
                  [(''opticsId'', PStr (py_str optics_id)),
                   (''state'', state)]])])]))"

definition set_ir_compensation :: "transport \<Rightarrow> optics_id \<Rightarrow> pyval \<Rightarrow> pyval io" where
  "set_ir_compensation api optics_id enabled =
     returning_None (send_request_vanilla api ''opticscontrol.cgi'' ''POST''
       (PDict [(''apiVersion'', PStr ''1.2''),
               (''method'', PStr ''setIrCompensation''),
               (''params'', PDict [(''optics'', PList [PDict
                  [(''opticsId'', PStr (py_str optics_id)),
                   (''enable'', enabled)]])])]))"

section \<open>A call of any public method\<close>

text \<open>
  The arguments of the eleven methods that take an optics id, and a call of any of the
  fourteen public methods; \<open>invoke\<close> dispatches a call to the method it names.
\<close>

datatype action =
    SetFocus pyval
  | SetRelativeFocus pyval
  | SetMagnification pyval
  | SetRelativeMagnification pyval
  | Calibrate "pyval option" "pyval option"
  | Reset "pyval option" "pyval option"
  | SetFocusWindow pyval pyval pyval pyval
  | PerformAutofocus
  | SetTemperatureCompensation pyval
  | SetIrCutFilterState pyval
  | SetIrCompensation pyval

datatype call = IsAvailable | GetOptics | GetCapabilities | OnOptics optics_id action

fun invoke :: "transport \<Rightarrow> call \<Rightarrow> pyval io" where
  "invoke api IsAvailable = is_available api"
| "invoke api GetOptics = get_optics api"
| "invoke api GetCapabilities = get_capabilities api"
| "invoke api (OnOptics i (SetFocus position)) = set_focus api i position"
| "invoke api (OnOptics i (SetRelativeFocus step)) = set_relative_focus api i step"
| "invoke api (OnOptics i (SetMagnification magnification)) = set_magnification api i magnification"
| "invoke api (OnOptics i (SetRelativeMagnification step)) = set_relative_magnification api i step"
| "invoke api (OnOptics i (Calibrate zoom focus)) = calibrate api i zoom focus"
| "invoke api (OnOptics i (Reset zoom focus)) = reset api i zoom focus"
| "invoke api (OnOptics i (SetFocusWindow x y w h)) = set_focus_window api i x y w h"
| "invoke api (OnOptics i PerformAutofocus) = perform_autofocus api i"
| "invoke api (OnOptics i (SetTemperatureCompensation enabled)) = set_temperature_compensation api i enabled"
| "invoke api (OnOptics i (SetIrCutFilterState state)) = set_ir_cut_filter_state api i state"
| "invoke api (OnOptics i (SetIrCompensation enabled)) = set_ir_compensation api i enabled"

fun call_name :: "call \<Rightarrow> string" where
  "call_name IsAvailable = ''is_available''"
| "call_name GetOptics = ''get_optics''"
| "call_name GetCapabilities = ''get_capabilities''"
| "call_name (OnOptics i (SetFocus position)) = ''set_focus''"
| "call_name (OnOptics i (SetRelativeFocus step)) = ''set_relative_focus''"
| "call_name (OnOptics i (SetMagnification magnification)) = ''set_magnification''"
| "call_name (OnOptics i (SetRelativeMagnification step)) = ''set_relative_magnification''"
| "call_name (OnOptics i (Calibrate zoom focus)) = ''calibrate''"
| "call_name (OnOptics i (Reset zoom focus)) = ''reset''"
| "call_name (OnOptics i (SetFocusWindow x y w h)) = ''set_focus_window''"
| "call_name (OnOptics i PerformAutofocus) = ''perform_autofocus''"
| "call_name (OnOptics i (SetTemperatureCompensation enabled)) = ''set_temperature_compensation''"
| "call_name (OnOptics i (SetIrCutFilterState state)) = ''set_ir_cut_filter_state''"
| "call_name (OnOptics i (SetIrCompensation enabled)) = ''set_ir_compensation''"

text \<open>The table of the fourteen public methods and the remote method each one names.\<close>

definition method_table :: "(string \<times> string) list" where
  "method_table =
     [(''is_available'', ''getOptics''),
      (''get_optics'', ''getOptics''),
      (''get_capabilities'', ''getCapabilities''),
      (''set_focus'', ''setFocus''),
      (''set_relative_focus'', ''setRelativeFocus''),
      (''set_magnification'', ''setMagnification''),
      (''set_relative_magnification'', ''setRelativeMagnification''),
      (''calibrate'', ''calibrate''),
      (''reset'', ''reset''),
      (''set_focus_window'', ''setFocusWindow''),
      (''perform_autofocus'', ''performAutofocus''),
      (''set_temperature_compensation'', ''setTemperatureCompensation''),
      (''set_ir_cut_filter_state'', ''setIrCutFilterState''),
      (''set_ir_compensation'', ''setIrCompensation'')]"

section \<open>What one call sends and returns\<close>

lemma returning_None_send:
  "returning_None (send_request_vanilla api p m body) sent =
     ((case api sent \<lparr>path = p, http_method = m, json_data = body\<rparr> of
         Inl e \<Rightarrow> Inl e | Inr r \<Rightarrow> Inr PNone),
      sent @ [\<lparr>path = p, http_method = m, json_data = body\<rparr>])"
  by (simp add: returning_None_def send_request_vanilla_def Let_def split: sum.splits)

lemmas method_defs =
  get_optics_def get_capabilities_def set_focus_def set_relative_focus_def
  set_magnification_def set_relative_magnification_def calibrate_def reset_def
  set_focus_window_def perform_autofocus_def set_temperature_compensation_def
  set_ir_cut_filter_state_def set_ir_compensation_def

lemma get_optics_eq:
  "get_optics api sent =
     (api sent \<lparr>path = ''opticscontrol.cgi'', http_method = ''POST'',
        json_data = PDict [(''apiVersion'', PStr ''1.2''), (''method'', PStr ''getOptics'')]\<rparr>,
      sent @ [\<lparr>path = ''opticscontrol.cgi'', http_method = ''POST'',
        json_data = PDict [(''apiVersion'', PStr ''1.2''), (''method'', PStr ''getOptics'')]\<rparr>])"
  by (simp add: get_optics_def send_request_vanilla_def Let_def)

lemma get_capabilities_eq:
  "get_capabilities api sent =
     (api sent \<lparr>path = ''opticscontrol.cgi'', http_method = ''POST'',
        json_data = PDict [(''apiVersion'', PStr ''1.2''), (''method'', PStr ''getCapabilities'')]\<rparr>,
      sent @ [\<lparr>path = ''opticscontrol.cgi'', http_method = ''POST'',
        json_data = PDict [(''apiVersion'', PStr ''1.2''), (''method'', PStr ''getCapabilities'')]\<rparr>])"
  by (simp add: get_capabilities_def send_request_vanilla_def Let_def)

text \<open>
  The availability check sends what \<open>get_optics\<close> sends: it has no request of its own.
\<close>

lemma snd_is_available: "snd (is_available api sent) = snd (get_optics api sent)"
  by (simp add: is_available_def split: prod.splits sum.splits)

text \<open>
  What the availability check lets through is never an instance of \<^verbatim>\<open>Exception\<close>:
  only an exception outside that class (an interrupt, an interpreter exit) escapes it.
\<close>

lemma is_available_raises_only_non_Exception:
  "fst (is_available api sent) = Inl e \<Longrightarrow> \<not> is_Exception e"
  by (auto simp add: is_available_def get_optics_eq split: sum.splits if_splits)

lemma str_int_examples:
  "str_int 0 = ''0''" "str_int 7 = ''7''" "str_int 1205 = ''1205''" "str_int (- 42) = ''-42''"
  by (simp_all add: str_int_def str_nat.simps)

section \<open>The properties\<close>

text \<open>
  C1. Every request envelope sent by any of the fourteen public methods has the field
  \<^verbatim>\<open>apiVersion\<close> equal to \<^verbatim>\<open>"1.2"\<close> and the field \<^verbatim>\<open>method\<close> equal to the remote method
  name that the table gives for the method called; the table has fourteen pairs, one per
  public method. Any call sends exactly one request.
\<close>

theorem envelope_apiVersion_and_method:
  "length method_table = 14 \<and> distinct (map fst method_table) \<and>
   (\<exists>rq m. snd (invoke api c sent) = sent @ [rq]
     \<and> getitem (json_data rq) ''apiVersion'' = Some (PStr ''1.2'')
     \<and> map_of method_table (call_name c) = Some m
     \<and> getitem (json_data rq) ''method'' = Some (PStr m))"
proof (intro conjI)
  show "length method_table = 14" by (simp add: method_table_def)
  show "distinct (map fst method_table)" by (simp add: method_table_def)
  show "\<exists>rq m. snd (invoke api c sent) = sent @ [rq]
     \<and> getitem (json_data rq) ''apiVersion'' = Some (PStr ''1.2'')
     \<and> map_of method_table (call_name c) = Some m
     \<and> getitem (json_data rq) ''method'' = Some (PStr m)"
  proof (cases c)
    case IsAvailable
    then show ?thesis by (simp add: snd_is_available get_optics_eq method_table_def)
  next
    case GetOptics
    then show ?thesis by (simp add: get_optics_eq method_table_def)
  next
    case GetCapabilities
    then show ?thesis by (simp add: get_capabilities_eq method_table_def)
  next
    case (OnOptics i a)
    then show ?thesis
      by (cases a) (simp_all add: method_defs returning_None_send method_table_def)
  qed
qed

text \<open>
  C2. Whatever error the transport raises on the probe request of the availability check
  (an error being an instance of \<^verbatim>\<open>Exception\<close>, the class the handler names),
  \<open>is_available\<close> returns \<^verbatim>\<open>False\<close> and raises nothing; and it returns \<^verbatim>\<open>True\<close> exactly
  when \<open>get_optics\<close> returns a body.
\<close>

theorem is_available_False_on_error_True_iff_get_optics_succeeds:
  "(\<forall>e. api sent \<lparr>path = ''opticscontrol.cgi'', http_method = ''POST'',
              json_data = PDict [(''apiVersion'', PStr ''1.2''), (''method'', PStr ''getOptics'')]\<rparr>
            = Inl e
          \<and> is_Exception e
        \<longrightarrow> fst (is_available api sent) = Inr (PBool False))
   \<and> (fst (is_available api sent) = Inr (PBool True)
        \<longleftrightarrow> (\<exists>r. fst (get_optics api sent) = Inr r))"
  by (auto simp add: is_available_def get_optics_eq split: sum.splits)

theorem is_available_witness:
  "is_Exception (PyExc True ''ConnectionError'' [])
   \<and> fst (is_available (\<lambda>sent rq. Inl (PyExc True ''ConnectionError'' [])) [])
       = Inr (PBool False)
   \<and> fst (is_available (\<lambda>sent rq. Inr (PDict [])) []) = Inr (PBool True)"
  using is_available_False_on_error_True_iff_get_optics_succeeds
          [of "\<lambda>sent rq. Inl (PyExc True ''ConnectionError'' [])" "[]"]
        is_available_False_on_error_True_iff_get_optics_succeeds
          [of "\<lambda>sent rq. Inr (PDict [])" "[]"]
  by (simp add: get_optics_eq)

text \<open>
  C3. For every call other than the availability check, the call sends one request, and
  it raises an exception \<open>e\<close> exactly when the transport raised \<open>e\<close> on that request:
  the exception reaches the caller as it is, not wrapped, not retried, not replaced.
\<close>

theorem transport_error_propagates_unchanged:
  "c \<noteq> IsAvailable \<Longrightarrow>
   \<exists>rq. snd (invoke api c sent) = sent @ [rq]
      \<and> (\<forall>e. api sent rq = Inl e \<longleftrightarrow> fst (invoke api c sent) = Inl e)"
proof (cases c)
  case IsAvailable
  assume "c \<noteq> IsAvailable"
  with IsAvailable show ?thesis by simp
next
  case GetOptics
  then show ?thesis by (simp add: get_optics_eq)
next
  case GetCapabilities
  then show ?thesis by (simp add: get_capabilities_eq)
next
  case (OnOptics i a)
  then show ?thesis
    by (cases a) (auto simp add: method_defs returning_None_send split: sum.splits)
qed

theorem transport_error_propagates_witness:
  "OnOptics (IdInt 1) (SetMagnification (PFloat (Finite 2))) \<noteq> IsAvailable
   \<and> fst (invoke (\<lambda>sent rq. Inl (PyExc True ''OpticsControlError'' [PStr ''boom'']))
            (OnOptics (IdInt 1) (SetMagnification (PFloat (Finite 2)))) [])
       = Inl (PyExc True ''OpticsControlError'' [PStr ''boom''])"
  using transport_error_propagates_unchanged
          [of "OnOptics (IdInt 1) (SetMagnification (PFloat (Finite 2)))"
              "\<lambda>sent rq. Inl (PyExc True ''OpticsControlError'' [PStr ''boom''])" "[]"]
  by auto

text \<open>
  C4. For every optics id and every position, \<open>set_focus\<close> sends exactly one request, a
  POST to \<^verbatim>\<open>opticscontrol.cgi\<close>, whose body has the method name \<^verbatim>\<open>"setFocus"\<close>,
  \<^verbatim>\<open>params.optics[0].opticsId\<close> equal to \<^verbatim>\<open>str(id)\<close> and \<^verbatim>\<open>params.optics[0].position\<close>
  equal to the position given.
\<close>

theorem set_focus_request:
  "\<exists>rq. snd (set_focus api i pos sent) = sent @ [rq]
      \<and> path rq = ''opticscontrol.cgi'' \<and> http_method rq = ''POST''
      \<and> getitem (json_data rq) ''method'' = Some (PStr ''setFocus'')
      \<and> Option.bind (optics0 (json_data rq)) (\<lambda>r. getitem r ''opticsId'') = Some (PStr (py_str i))
      \<and> Option.bind (optics0 (json_data rq)) (\<lambda>r. getitem r ''position'') = Some pos"
  by (simp add: set_focus_def returning_None_send optics0_def params_optics_def)

text \<open>
  C5. For every optics id, \<open>calibrate\<close> called with neither flag given sends
  \<^verbatim>\<open>zoom: true, focus: true\<close>, and \<open>reset\<close> called with neither flag given sends
  \<^verbatim>\<open>zoom: false, focus: true\<close>.
\<close>

theorem calibrate_reset_default_flags:
  "(\<exists>rq r. snd (calibrate api i None None sent) = sent @ [rq]
       \<and> optics0 (json_data rq) = Some r
       \<and> getitem r ''zoom'' = Some (PBool True) \<and> getitem r ''focus'' = Some (PBool True))
   \<and> (\<exists>rq r. snd (reset api i None None sent) = sent @ [rq]
       \<and> optics0 (json_data rq) = Some r
       \<and> getitem r ''zoom'' = Some (PBool False) \<and> getitem r ''focus'' = Some (PBool True))"
  by (simp add: calibrate_def reset_def returning_None_send optics0_def params_optics_def
        defaulting_def)

text \<open>
  C6. The constant \<open>RELATIVE_STEP\<close> maps \<^verbatim>\<open>BIG_IN\<close>, \<^verbatim>\<open>SMALL_IN\<close>, \<^verbatim>\<open>BIG_OUT\<close> and
  \<^verbatim>\<open>SMALL_OUT\<close> to \<^verbatim>\<open>"+bigStep"\<close>, \<^verbatim>\<open>"+smallStep"\<close>, \<^verbatim>\<open>"-bigStep"\<close> and
  \<^verbatim>\<open>"-smallStep"\<close>, and these four are all its keys.
\<close>

theorem RELATIVE_STEP_entries:
  "map_of RELATIVE_STEP ''BIG_IN'' = Some ''+bigStep''
   \<and> map_of RELATIVE_STEP ''SMALL_IN'' = Some ''+smallStep''
   \<and> map_of RELATIVE_STEP ''BIG_OUT'' = Some ''-bigStep''
   \<and> map_of RELATIVE_STEP ''SMALL_OUT'' = Some ''-smallStep''
   \<and> map fst RELATIVE_STEP = [''BIG_IN'', ''SMALL_IN'', ''BIG_OUT'', ''SMALL_OUT'']"
  by (simp add: RELATIVE_STEP_def)

text \<open>
  C7. For every optics id, \<open>set_focus_window\<close> called with 0.1, 0.2, 0.5 and 0.6 sends
  one request with the method name \<^verbatim>\<open>"setFocusWindow"\<close> whose optics record has
  \<^verbatim>\<open>focusWindowUpperLeftX\<close> 0.1, \<^verbatim>\<open>focusWindowUpperLeftY\<close> 0.2, \<^verbatim>\<open>focusWindowWidth\<close> 0.5
  and \<^verbatim>\<open>focusWindowHeight\<close> 0.6.
\<close>

theorem set_focus_window_request:
  "\<exists>rq r. snd (set_focus_window api i (PFloat (Finite 0.1)) (PFloat (Finite 0.2))
                 (PFloat (Finite 0.5)) (PFloat (Finite 0.6)) sent) = sent @ [rq]
      \<and> getitem (json_data rq) ''method'' = Some (PStr ''setFocusWindow'')
      \<and> optics0 (json_data rq) = Some r
      \<and> getitem r ''focusWindowUpperLeftX'' = Some (PFloat (Finite 0.1))
      \<and> getitem r ''focusWindowUpperLeftY'' = Some (PFloat (Finite 0.2))
      \<and> getitem r ''focusWindowWidth'' = Some (PFloat (Finite 0.5))
      \<and> getitem r ''focusWindowHeight'' = Some (PFloat (Finite 0.6))"
  by (simp add: set_focus_window_def returning_None_send optics0_def params_optics_def)

text \<open>
  C8. For every string \<open>step\<close>, one of the four tokens or not, \<open>set_relative_focus\<close> and
  \<open>set_relative_magnification\<close> send one request whose optics record carries \<open>step\<close>
  itself under \<^verbatim>\<open>type\<close>, and their outcome is the transport's alone: they raise only what
  the transport raised on that request and return \<^verbatim>\<open>None\<close> otherwise, so the token is
  neither checked nor changed by the client.
\<close>

theorem relative_step_forwarded_unvalidated:
  "(\<exists>rq. set_relative_focus api i (PStr step) sent =
            ((case api sent rq of Inl e \<Rightarrow> Inl e | Inr r \<Rightarrow> Inr PNone), sent @ [rq])
       \<and> Option.bind (optics0 (json_data rq)) (\<lambda>r. getitem r ''type'') = Some (PStr step))
   \<and> (\<exists>rq. set_relative_magnification api i (PStr step) sent =
            ((case api sent rq of Inl e \<Rightarrow> Inl e | Inr r \<Rightarrow> Inr PNone), sent @ [rq])
       \<and> Option.bind (optics0 (json_data rq)) (\<lambda>r. getitem r ''type'') = Some (PStr step))"
  by (simp add: set_relative_focus_def set_relative_magnification_def returning_None_send
        optics0_def params_optics_def)

text \<open>
  C9. For each of the eleven methods that take an optics id, whatever its other arguments,
  and every integer \<open>n\<close>: the call with the id \<open>n\<close> and the call with the id \<^verbatim>\<open>str(n)\<close>
  send the same request and have the same outcome; and for any id the field
  \<^verbatim>\<open>opticsId\<close> of the record sent is \<^verbatim>\<open>str(id)\<close>.
\<close>

theorem optics_id_int_and_str_same_request:
  "invoke api (OnOptics (IdInt n) a) sent = invoke api (OnOptics (IdStr (py_str (IdInt n))) a) sent
   \<and> (\<exists>rq. snd (invoke api (OnOptics i a) sent) = sent @ [rq]
        \<and> Option.bind (optics0 (json_data rq)) (\<lambda>r. getitem r ''opticsId'')
            = Some (PStr (py_str i)))"
  by (cases a) (simp_all add: method_defs returning_None_send optics0_def params_optics_def)

text \<open>
  C10. The envelopes sent by \<open>get_optics\<close> and \<open>get_capabilities\<close> have the two keys
  \<^verbatim>\<open>apiVersion\<close> and \<^verbatim>\<open>method\<close> and no key \<^verbatim>\<open>params\<close> (the availability check sends
  nothing of its own, only what \<open>get_optics\<close> sends); the envelope of every other method
  has \<^verbatim>\<open>params.optics\<close>, a list of exactly one element.
\<close>

theorem params_absent_for_getters_one_optics_otherwise:
  "(\<exists>rq. snd (get_optics api sent) = sent @ [rq]
       \<and> keys (json_data rq) = [''apiVersion'', ''method'']
       \<and> getitem (json_data rq) ''params'' = None)
   \<and> (\<exists>rq. snd (get_capabilities api sent) = sent @ [rq]
       \<and> keys (json_data rq) = [''apiVersion'', ''method'']
       \<and> getitem (json_data rq) ''params'' = None)
   \<and> snd (is_available api sent) = snd (get_optics api sent)
   \<and> (\<exists>rq r. snd (invoke api (OnOptics i a) sent) = sent @ [rq]
       \<and> params_optics (json_data rq) = Some (PList [r]))"
proof (intro conjI)
  show "\<exists>rq. snd (get_optics api sent) = sent @ [rq]
       \<and> keys (json_data rq) = [''apiVersion'', ''method'']
       \<and> getitem (json_data rq) ''params'' = None"
    by (simp add: get_optics_eq)
  show "\<exists>rq. snd (get_capabilities api sent) = sent @ [rq]
       \<and> keys (json_data rq) = [''apiVersion'', ''method'']
       \<and> getitem (json_data rq) ''params'' = None"
    by (simp add: get_capabilities_eq)
  show "snd (is_available api sent) = snd (get_optics api sent)"
    by (rule snd_is_available)
  show "\<exists>rq r. snd (invoke api (OnOptics i a) sent) = sent @ [rq]
       \<and> params_optics (json_data rq) = Some (PList [r])"
    by (cases a) (simp_all add: method_defs returning_None_send params_optics_def)
qed

end
